theory Spec2Isabelle
  imports Main
begin

section \<open>Values\<close>

text \<open>
  The values a lookup \<^verbatim>\<open>config[key]\<close> on an object literal with string properties can
  produce, and that the template literal of the controller has to turn into text:
  a string, \<^verbatim>\<open>undefined\<close>, or a member inherited from \<^verbatim>\<open>Object.prototype\<close>
  (a built-in function, named by its \<^verbatim>\<open>name\<close> property, or \<^verbatim>\<open>Object.prototype\<close>
  itself, which the accessor \<^verbatim>\<open>__proto__\<close> returns).
\<close>

datatype jsvalue =
    JUndefined
  | JString string
  | JNativeFunction string
  | JObjectPrototype

text \<open>
  The members every object literal inherits from \<^verbatim>\<open>Object.prototype\<close>:
  \<^verbatim>\<open>constructor\<close> is the function \<^verbatim>\<open>Object\<close>, \<^verbatim>\<open>__proto__\<close> is an accessor whose getter
  returns the prototype of the receiver (for an object literal, \<^verbatim>\<open>Object.prototype\<close>),
  the others are functions carrying their own name.
\<close>

definition Object_prototype_methods :: "string list" where
  "Object_prototype_methods =
     [''__defineGetter__'', ''__defineSetter__'', ''hasOwnProperty'',
      ''__lookupGetter__'', ''__lookupSetter__'', ''isPrototypeOf'',
      ''propertyIsEnumerable'', ''toString'', ''valueOf'', ''toLocaleString'']"

definition Object_prototype :: "string \<Rightarrow> jsvalue option" where
  "Object_prototype key =
     (if key = ''constructor'' then Some (JNativeFunction ''Object'')
      else if key = ''__proto__'' then Some JObjectPrototype
      else if key \<in> set Object_prototype_methods then Some (JNativeFunction key)
      else None)"

text \<open>
  \<^verbatim>\<open>obj[key]\<close> for an object literal \<^verbatim>\<open>obj\<close> whose own properties are strings: the own
  property if there is one, else the inherited member, else \<^verbatim>\<open>undefined\<close>.
\<close>

definition get_property :: "(string \<times> string) list \<Rightarrow> string \<Rightarrow> jsvalue" where
  "get_property obj key =
     (case map_of obj key of
        Some v \<Rightarrow> JString v
      | None \<Rightarrow> (case Object_prototype key of Some v \<Rightarrow> v | None \<Rightarrow> JUndefined))"

text \<open>
  The conversion a template literal \<^verbatim>\<open>`${v}`\<close> applies. The text of a built-in function
  is the one Node prints.
\<close>

fun to_string :: "jsvalue \<Rightarrow> string" where
  "to_string JUndefined = ''undefined''"
| "to_string (JString s) = s"
| "to_string (JNativeFunction name) = ''function '' @ name @ ''() { [native code] }''"
| "to_string JObjectPrototype = ''[object Object]''"

section \<open>The configuration services\<close>

text \<open>
  \<^verbatim>\<open>abstract class ConfigService { abstract get(key: string): string }\<close>: an object with
  one method. The implementations of the repository and the stub of the test compute
  their result from the key alone.
\<close>

record config_service =
  ConfigService_get :: "string \<Rightarrow> jsvalue"

definition DevConfigService_get :: "string \<Rightarrow> jsvalue" where
  "DevConfigService_get key =
     (let config = [(''host'', ''localhost''), (''port'', ''3000'')]
      in get_property config key)"

definition ProdConfigService_get :: "string \<Rightarrow> jsvalue" where
  "ProdConfigService_get key =
     (let config = [(''host'', ''prod.example.com''), (''port'', ''80'')]
      in get_property config key)"

definition new_DevConfigService :: config_service where
  "new_DevConfigService = \<lparr>ConfigService_get = DevConfigService_get\<rparr>"

definition new_ProdConfigService :: config_service where
  "new_ProdConfigService = \<lparr>ConfigService_get = ProdConfigService_get\<rparr>"

section \<open>The logger, the greeting service and the controller\<close>

text \<open>
  What \<^verbatim>\<open>console.log\<close> has printed: one entry for each call, holding its arguments.
  An argument is a string or an object literal, kept as the list of its properties.
\<close>

datatype literal_value = LString string | LNumber int

type_synonym object_literal = "(string \<times> literal_value) list"

datatype logged = LogString string | LogObject object_literal

type_synonym console = "logged list list"

text \<open>
  \<^verbatim>\<open>LoggerService\<close>, as custom-provider.md lists it:
  \<^verbatim>\<open>log(message: string) { console.log('LOG:', message); }\<close>.
  A logger is an object with a \<^verbatim>\<open>log\<close> method acting on the console; the stub of the
  test, \<^verbatim>\<open>{ log: (msg: string) => {} }\<close>, leaves it alone.
\<close>

record logger_service =
  LoggerService_log :: "string \<Rightarrow> console \<Rightarrow> console"

definition new_LoggerService :: logger_service where
  "new_LoggerService =
     \<lparr>LoggerService_log = (\<lambda>message out. out @ [[LogString ''LOG:'', LogString message]])\<rparr>"

text \<open>
  \<^verbatim>\<open>AppService\<close>: an object whose \<^verbatim>\<open>getHello()\<close> returns a string, the greeting.
  \<^verbatim>\<open>src/app.service.ts\<close> is not listed, so the greeting is left open.
\<close>

record app_service =
  AppService_getHello :: string

record app_controller =
  appService :: app_service
  configService :: config_service
  logger :: logger_service

text \<open>
  The message the controller logs, \<^verbatim>\<open>'getHello() '\<close> followed by seven Japanese
  characters, as UTF-8 bytes.
\<close>

definition getHello_message :: string where
  "getHello_message = ''getHello() '' @
     [CHR 0xE3, CHR 0x81, CHR 0x8C, CHR 0xE5, CHR 0x91, CHR 0xBC, CHR 0xE3, CHR 0x81,
      CHR 0xB0, CHR 0xE3, CHR 0x82, CHR 0x8C, CHR 0xE3, CHR 0x81, CHR 0xBE, CHR 0xE3,
      CHR 0x81, CHR 0x97, CHR 0xE3, CHR 0x81, CHR 0x9F]"

text \<open>
  \<^verbatim>\<open>AppController.getHello()\<close>. The call returns the response; the model also returns
  the controller and the console as the call leaves them.
\<close>

definition AppController_getHello ::
  "app_controller \<Rightarrow> console \<Rightarrow> string \<times> app_controller \<times> console" where
  "AppController_getHello this out =
     (let out' = LoggerService_log (logger this) getHello_message out;
          host = ConfigService_get (configService this) ''host''
      in (AppService_getHello (appService this) @ '' - Config Host: '' @ to_string host,
          this, out'))"

text \<open>The module of the test: the stubbed configuration service and the stubbed logger.\<close>

definition test_ConfigService :: config_service where
  "test_ConfigService =
     \<lparr>ConfigService_get = (\<lambda>key. if key = ''host'' then JString ''localhost'' else JUndefined)\<rparr>"

definition test_logger :: logger_service where
  "test_logger = \<lparr>LoggerService_log = (\<lambda>msg out. out)\<rparr>"

definition test_AppController :: app_controller where
  "test_AppController =
     \<lparr>appService = \<lparr>AppService_getHello = ''Hello World!''\<rparr>,
      configService = test_ConfigService,
      logger = test_logger\<rparr>"

section \<open>The controller among stateful services\<close>

text \<open>
  The objects injected into the controller are arbitrary objects: a method of theirs may
  keep state between calls, print, throw, and at run time, where \<^verbatim>\<open>private readonly\<close>
  is not enforced, assign a field of the controller. The world holds what such a method
  can read and write: the three fields of the controller, as references to objects, the
  state of the objects, and the console. An object is the table of its methods; a call
  completes by returning a value or by throwing.
\<close>

type_synonym ref = nat

record 'st world =
  this_appService :: ref
  this_configService :: ref
  this_logger :: ref
  object_state :: 'st
  printed :: console

datatype 'a completion = Return 'a | Throw string

record 'st js_object =
  call_getHello :: "'st world \<Rightarrow> string completion \<times> 'st world"
  call_get :: "string \<Rightarrow> 'st world \<Rightarrow> jsvalue completion \<times> 'st world"
  call_log :: "string \<Rightarrow> 'st world \<Rightarrow> unit completion \<times> 'st world"


text \<open>
  \<^verbatim>\<open>AppController.getHello()\<close> in such a world: \<^verbatim>\<open>this.logger.log(...)\<close>, then
  \<^verbatim>\<open>this.configService.get('host')\<close>, then \<^verbatim>\<open>this.appService.getHello()\<close> and the
  concatenation, each field read when its call is made; an exception thrown by a call
  ends \<^verbatim>\<open>getHello\<close>.
\<close>

definition AppController_getHello_stateful ::
  "(ref \<Rightarrow> 'st js_object) \<Rightarrow> 'st world \<Rightarrow> string completion \<times> 'st world" where
  "AppController_getHello_stateful objects w =
     (case call_log (objects (this_logger w)) getHello_message w of
        (Throw e, w1) \<Rightarrow> (Throw e, w1)
      | (Return u, w1) \<Rightarrow>
          (case call_get (objects (this_configService w1)) ''host'' w1 of
             (Throw e, w2) \<Rightarrow> (Throw e, w2)
           | (Return host, w2) \<Rightarrow>
               (case call_getHello (objects (this_appService w2)) w2 of
                  (Throw e, w3) \<Rightarrow> (Throw e, w3)
                | (Return greeting, w3) \<Rightarrow>
                    (Return (greeting @ '' - Config Host: '' @ to_string host), w3))))"

text \<open>
  The services of the first model as objects of this one: they keep no state and assign
  no field; calling a method an object does not have throws a \<^verbatim>\<open>TypeError\<close>.
\<close>

definition not_a_function :: "'st world \<Rightarrow> 'a completion \<times> 'st world" where
  "not_a_function w = (Throw ''TypeError'', w)"

definition app_service_object :: "app_service \<Rightarrow> 'st js_object" where
  "app_service_object a =
     \<lparr>call_getHello = (\<lambda>w. (Return (AppService_getHello a), w)),
      call_get = (\<lambda>key. not_a_function),
      call_log = (\<lambda>message. not_a_function)\<rparr>"

definition config_service_object :: "config_service \<Rightarrow> 'st js_object" where
  "config_service_object c =
     \<lparr>call_getHello = not_a_function,
      call_get = (\<lambda>key w. (Return (ConfigService_get c key), w)),
      call_log = (\<lambda>message. not_a_function)\<rparr>"

definition logger_service_object :: "logger_service \<Rightarrow> 'st js_object" where
  "logger_service_object l =
     \<lparr>call_getHello = not_a_function,
      call_get = (\<lambda>key. not_a_function),
      call_log = (\<lambda>message w. (Return (), w\<lparr>printed := LoggerService_log l message (printed w)\<rparr>))\<rparr>"

definition injected_objects :: "app_controller \<Rightarrow> ref \<Rightarrow> 'st js_object" where
  "injected_objects this r =
     (if r = 0 then app_service_object (appService this)
      else if r = 1 then config_service_object (configService this)
      else logger_service_object (logger this))"

definition world_of :: "'st \<Rightarrow> console \<Rightarrow> 'st world" where
  "world_of st out =
     \<lparr>this_appService = 0, this_configService = 1, this_logger = 2,
      object_state = st, printed = out\<rparr>"





section \<open>The database connection and its factory\<close>

text \<open>
  \<^verbatim>\<open>OptionsProvider\<close> and \<^verbatim>\<open>DatabaseConnection\<close>, as custom-provider.md lists them. An
  options provider is an object whose \<^verbatim>\<open>get\<close> returns the options and may act on the
  console, so that each call of \<^verbatim>\<open>get\<close> can be observed; \<^verbatim>\<open>OptionsProvider.get\<close>
  itself returns a literal and prints nothing.
\<close>

record options_provider =
  OptionsProvider_get :: "console \<Rightarrow> object_literal \<times> console"

definition new_OptionsProvider :: options_provider where
  "new_OptionsProvider =
     \<lparr>OptionsProvider_get =
        (\<lambda>out. ([(''host'', LString ''localhost''), (''port'', LNumber 5432)], out))\<rparr>"

record database_connection =
  DatabaseConnection_options :: object_literal

text \<open>The label \<^verbatim>\<open>connect\<close> prints before the options: eleven Japanese characters
  and a colon, as UTF-8 bytes.\<close>

definition connect_message :: string where
  "connect_message =
     [CHR 0xE3, CHR 0x83, CHR 0x87, CHR 0xE3, CHR 0x83, CHR 0xBC, CHR 0xE3, CHR 0x82,
      CHR 0xBF, CHR 0xE3, CHR 0x83, CHR 0x99, CHR 0xE3, CHR 0x83, CHR 0xBC, CHR 0xE3,
      CHR 0x82, CHR 0xB9, CHR 0xE6, CHR 0x8E, CHR 0xA5, CHR 0xE7, CHR 0xB6, CHR 0x9A,
      CHR 0xE3, CHR 0x82, CHR 0x92, CHR 0xE5, CHR 0xAE, CHR 0x9F, CHR 0xE6, CHR 0x96,
      CHR 0xBD, CHR 0x3A]"

definition DatabaseConnection_connect :: "database_connection \<Rightarrow> console \<Rightarrow> bool \<times> console" where
  "DatabaseConnection_connect this out =
     (True, out @ [[LogString connect_message, LogObject (DatabaseConnection_options this)]])"

definition connectionProvider_useFactory ::
  "options_provider \<Rightarrow> console \<Rightarrow> database_connection \<times> console" where
  "connectionProvider_useFactory optionsProvider out =
     (let (options, out1) = OptionsProvider_get optionsProvider out;
          connection = \<lparr>DatabaseConnection_options = options\<rparr>;
          (connected, out2) = DatabaseConnection_connect connection out1
      in (connection, out2))"

section \<open>The module\<close>

text \<open>
  Classes are referred to by name, as injection tokens and as the targets of
  \<^verbatim>\<open>useClass\<close>; a token is a string or a class.
\<close>

datatype class_ref =
    AppService
  | OptionsProvider
  | ConfigService
  | DevConfigService
  | ProdConfigService
  | LoggerService
  | AppController

datatype token = StringToken string | ClassToken class_ref

text \<open>
  The objects the container holds: the object of a value provider, an instance of a
  class with the addresses of its injected constructor arguments, or the connection the
  factory returns.
\<close>

type_synonym addr = nat

datatype heap_object =
    ValueObject object_literal
  | ClassInstance class_ref "addr list"
  | DatabaseConnectionObject database_connection

datatype error = UnknownDependency token | CircularDependency | InvalidAddress | TypeError

type_synonym factory = "heap_object list \<Rightarrow> console \<Rightarrow> (error + heap_object) \<times> console"

datatype provider_def =
    UseValue object_literal
  | UseClass class_ref
  | UseFactory factory "token list"
  | UseExisting token

record provider =
  provide :: token
  use :: provider_def

text \<open>A class listed among the providers stands for \<^verbatim>\<open>{ provide: C, useClass: C }\<close>.\<close>

definition class_provider :: "class_ref \<Rightarrow> provider" where
  "class_provider c = \<lparr>provide = ClassToken c, use = UseClass c\<rparr>"

text \<open>
  \<^verbatim>\<open>AppConfig\<close>, as custom-provider.md lists \<^verbatim>\<open>src/config/app.config.ts\<close>.
\<close>

definition AppConfig :: object_literal where
  "AppConfig =
     [(''port'', LNumber 3000), (''host'', LString ''localhost''), (''apiEndpoint'', LString ''/api'')]"

fun typeof :: "literal_value \<Rightarrow> string" where
  "typeof (LString s) = ''string''"
| "typeof (LNumber n) = ''number''"

text \<open>
  The four providers of the module. The container calls a factory with the instances of
  its \<^verbatim>\<open>inject\<close> list; the factory of the module takes the one \<^verbatim>\<open>OptionsProvider\<close>.
  \<^verbatim>\<open>process.env\<close> is a map from names to strings.
\<close>

definition connectionProvider :: provider where
  "connectionProvider =
     \<lparr>provide = StringToken ''DATABASE_CONNECTION'',
      use = UseFactory
        (\<lambda>args out.
           case args of
             [ClassInstance OptionsProvider injected] \<Rightarrow>
               (let (connection, out') = connectionProvider_useFactory new_OptionsProvider out
                in (Inr (DatabaseConnectionObject connection), out'))
           | _ \<Rightarrow> (Inl TypeError, out))
        [ClassToken OptionsProvider]\<rparr>"

definition configServiceProvider :: "(string \<rightharpoonup> string) \<Rightarrow> provider" where
  "configServiceProvider env =
     \<lparr>provide = ClassToken ConfigService,
      use = UseClass (if env ''NODE_ENV'' = Some ''production''
                      then ProdConfigService else DevConfigService)\<rparr>"

definition appConfigProvider :: provider where
  "appConfigProvider = \<lparr>provide = StringToken ''APP_CONFIG'', use = UseValue AppConfig\<rparr>"

definition loggerAliasProvider :: provider where
  "loggerAliasProvider =
     \<lparr>provide = StringToken ''ALIAS_LOGGER'', use = UseExisting (ClassToken LoggerService)\<rparr>"

record module_def =
  controllers :: "class_ref list"
  providers :: "provider list"
  exports :: "token list"

definition AppModule :: "(string \<rightharpoonup> string) \<Rightarrow> module_def" where
  "AppModule env =
     \<lparr>controllers = [AppController],
      providers =
        [class_provider AppService,
         class_provider OptionsProvider,
         connectionProvider,
         configServiceProvider env,
         appConfigProvider,
         class_provider LoggerService,
         loggerAliasProvider],
      exports = [StringToken ''DATABASE_CONNECTION'', ClassToken ConfigService,
                 StringToken ''APP_CONFIG'', StringToken ''ALIAS_LOGGER'']\<rparr>"

section \<open>The container\<close>

text \<open>
  The framework instantiates the providers of a module; custom-provider.md describes
  the four kinds: a value provider provides its object as it is, a class provider an
  instance of the chosen class, a factory provider what the factory returns for the
  instances of its \<^verbatim>\<open>inject\<close> list, and an alias provider the instance of the existing
  provider, so that two tokens refer to one instance. Every token is instantiated at
  most once. Objects live in a heap and are identified by their address.
\<close>

record container =
  instances :: "(token \<times> addr) list"
  controller_instances :: "(class_ref \<times> addr) list"
  heap :: "heap_object list"
  console_out :: console

definition empty_container :: container where
  "empty_container = \<lparr>instances = [], controller_instances = [], heap = [], console_out = []\<rparr>"

definition allocate :: "heap_object \<Rightarrow> container \<Rightarrow> addr \<times> container" where
  "allocate obj s = (length (heap s), s\<lparr>heap := heap s @ [obj]\<rparr>)"

definition deref :: "container \<Rightarrow> addr \<Rightarrow> heap_object option" where
  "deref s a = (if a < length (heap s) then Some (heap s ! a) else None)"

definition bind_token :: "token \<Rightarrow> addr \<Rightarrow> container \<Rightarrow> container" where
  "bind_token t a s = s\<lparr>instances := instances s @ [(t, a)]\<rparr>"

text \<open>
  The constructor parameters the container injects: \<^verbatim>\<open>AppController\<close> takes the
  \<^verbatim>\<open>AppService\<close>, the \<^verbatim>\<open>ConfigService\<close> and, by \<^verbatim>\<open>@Inject('ALIAS_LOGGER')\<close>, the logger;
  the other classes take none.
\<close>

fun constructor_params :: "class_ref \<Rightarrow> token list" where
  "constructor_params AppController =
     [ClassToken AppService, ClassToken ConfigService, StringToken ''ALIAS_LOGGER'']"
| "constructor_params c = []"

definition find_provider :: "provider list \<Rightarrow> token \<Rightarrow> provider option" where
  "find_provider ps t = find (\<lambda>p. provide p = t) (rev ps)"

text \<open>
  Resolving a token: the instance it is bound to, or else a new one made as its provider
  says, its dependencies resolved first. The fuel bounds the depth of the dependency
  chain; a chain longer than the list of providers is circular.
\<close>

fun resolve :: "nat \<Rightarrow> provider list \<Rightarrow> token \<Rightarrow> container \<Rightarrow> error + addr \<times> container"
  and resolve_all ::
    "nat \<Rightarrow> provider list \<Rightarrow> token list \<Rightarrow> container \<Rightarrow> error + addr list \<times> container"
where
  "resolve 0 ps t s = Inl CircularDependency"
| "resolve (Suc n) ps t s =
     (case map_of (instances s) t of
        Some a \<Rightarrow> Inr (a, s)
      | None \<Rightarrow>
          (case find_provider ps t of
             None \<Rightarrow> Inl (UnknownDependency t)
           | Some p \<Rightarrow>
               (case use p of
                  UseValue v \<Rightarrow>
                    (let (a, s') = allocate (ValueObject v) s in Inr (a, bind_token t a s'))
                | UseClass c \<Rightarrow>
                    (case resolve_all n ps (constructor_params c) s of
                       Inl e \<Rightarrow> Inl e
                     | Inr (args, s') \<Rightarrow>
                         (let (a, s'') = allocate (ClassInstance c args) s'
                          in Inr (a, bind_token t a s'')))
                | UseFactory f inject \<Rightarrow>
                    (case resolve_all n ps inject s of
                       Inl e \<Rightarrow> Inl e
                     | Inr (args, s') \<Rightarrow>
                         (case those (map (deref s') args) of
                            None \<Rightarrow> Inl InvalidAddress
                          | Some objs \<Rightarrow>
                              (case f objs (console_out s') of
                                 (Inl e, out) \<Rightarrow> Inl e
                               | (Inr obj, out) \<Rightarrow>
                                   (let (a, s'') = allocate obj (s'\<lparr>console_out := out\<rparr>)
                                    in Inr (a, bind_token t a s'')))))
                | UseExisting t' \<Rightarrow>
                    (case resolve n ps t' s of
                       Inl e \<Rightarrow> Inl e
                     | Inr (a, s') \<Rightarrow> Inr (a, bind_token t a s')))))"
| "resolve_all n ps [] s = Inr ([], s)"
| "resolve_all n ps (t # ts) s =
     (case resolve n ps t s of
        Inl e \<Rightarrow> Inl e
      | Inr (a, s') \<Rightarrow>
          (case resolve_all n ps ts s' of
             Inl e \<Rightarrow> Inl e
           | Inr (as, s'') \<Rightarrow> Inr (a # as, s'')))"

fun instantiate_controllers ::
  "nat \<Rightarrow> provider list \<Rightarrow> class_ref list \<Rightarrow> container \<Rightarrow> error + container" where
  "instantiate_controllers n ps [] s = Inr s"
| "instantiate_controllers n ps (c # cs) s =
     (case resolve_all n ps (constructor_params c) s of
        Inl e \<Rightarrow> Inl e
      | Inr (args, s') \<Rightarrow>
          (let (a, s'') = allocate (ClassInstance c args) s'
           in instantiate_controllers n ps cs
                (s''\<lparr>controller_instances := controller_instances s'' @ [(c, a)]\<rparr>)))"

text \<open>Starting the application: every provider, then every controller.\<close>

definition fuel_for :: "module_def \<Rightarrow> nat" where
  "fuel_for m = Suc (length (providers m))"

definition bootstrap :: "module_def \<Rightarrow> error + container" where
  "bootstrap m =
     (let ps = providers m in
      case resolve_all (fuel_for m) ps (map provide ps) empty_container of
        Inl e \<Rightarrow> Inl e
      | Inr (as, s) \<Rightarrow> instantiate_controllers (fuel_for m) ps (controllers m) s)"

text \<open>What a token and a controller class are bound to in a started container.\<close>

definition address_of :: "container \<Rightarrow> token \<Rightarrow> addr option" where
  "address_of s t = map_of (instances s) t"

definition lookup :: "container \<Rightarrow> token \<Rightarrow> heap_object option" where
  "lookup s t = (case address_of s t of None \<Rightarrow> None | Some a \<Rightarrow> deref s a)"

definition controller :: "container \<Rightarrow> class_ref \<Rightarrow> heap_object option" where
  "controller s c =
     (case map_of (controller_instances s) c of None \<Rightarrow> None | Some a \<Rightarrow> deref s a)"

text \<open>The container of the started application, written out.\<close>

definition options_literal :: object_literal where
  "options_literal = [(''host'', LString ''localhost''), (''port'', LNumber 5432)]"

definition started :: "(string \<rightharpoonup> string) \<Rightarrow> container" where
  "started env =
     \<lparr>instances =
        [(ClassToken AppService, 0), (ClassToken OptionsProvider, 1),
         (StringToken ''DATABASE_CONNECTION'', 2), (ClassToken ConfigService, 3),
         (StringToken ''APP_CONFIG'', 4), (ClassToken LoggerService, 5),
         (StringToken ''ALIAS_LOGGER'', 5)],
      controller_instances = [(AppController, 6)],
      heap =
        [ClassInstance AppService [], ClassInstance OptionsProvider [],
         DatabaseConnectionObject \<lparr>DatabaseConnection_options = options_literal\<rparr>,
         ClassInstance (if env ''NODE_ENV'' = Some ''production''
                        then ProdConfigService else DevConfigService) [],
         ValueObject AppConfig,
         ClassInstance LoggerService [], ClassInstance AppController [0, 3, 5]],
      console_out = [[LogString connect_message, LogObject options_literal]]\<rparr>"

text \<open>
  Serving \<^verbatim>\<open>GET /\<close>: the framework calls \<^verbatim>\<open>getHello\<close> on the controller of the
  container, whose fields are the objects at the injected addresses. The greeting
  service stands for the instance of \<^verbatim>\<open>AppService\<close>.
\<close>

fun config_service_of :: "heap_object \<Rightarrow> config_service option" where
  "config_service_of (ClassInstance DevConfigService args) = Some new_DevConfigService"
| "config_service_of (ClassInstance ProdConfigService args) = Some new_ProdConfigService"
| "config_service_of obj = None"

fun logger_service_of :: "heap_object \<Rightarrow> logger_service option" where
  "logger_service_of (ClassInstance LoggerService args) = Some new_LoggerService"
| "logger_service_of obj = None"

definition AppController_of ::
  "app_service \<Rightarrow> container \<Rightarrow> heap_object \<Rightarrow> app_controller option" where
  "AppController_of greeting s obj =
     (case obj of
        ClassInstance AppController [a, c, l] \<Rightarrow>
          (case (deref s a, Option.bind (deref s c) config_service_of,
                 Option.bind (deref s l) logger_service_of) of
             (Some (ClassInstance AppService args), Some cs, Some lg) \<Rightarrow>
               Some \<lparr>appService = greeting, configService = cs, logger = lg\<rparr>
           | _ \<Rightarrow> None)
      | _ \<Rightarrow> None)"

definition GET_root :: "app_service \<Rightarrow> container \<Rightarrow> error + string \<times> container" where
  "GET_root greeting s =
     (case Option.bind (controller s AppController) (AppController_of greeting s) of
        None \<Rightarrow> Inl TypeError
      | Some this \<Rightarrow>
          (let (response, this', out) = AppController_getHello this (console_out s)
           in Inr (response, s\<lparr>console_out := out\<rparr>)))"

text \<open>An options provider that prints a line each time \<^verbatim>\<open>get\<close> is called and returns the
  number of lines printed before.\<close>

definition counting_OptionsProvider :: options_provider where
  "counting_OptionsProvider =
     \<lparr>OptionsProvider_get =
        (\<lambda>out. ([(''calls'', LNumber (int (length out)))], out @ [[LogString ''get'']]))\<rparr>"

section \<open>Properties of the configuration services\<close>

lemma get_property_not_own:
  "map_of obj key = None \<Longrightarrow>
   get_property obj key = (case Object_prototype key of Some v \<Rightarrow> v | None \<Rightarrow> JUndefined)"
  by (simp add: get_property_def)

lemma DevConfigService_get_other:
  "key \<noteq> ''host'' \<Longrightarrow> key \<noteq> ''port'' \<Longrightarrow>
   DevConfigService_get key = (case Object_prototype key of Some v \<Rightarrow> v | None \<Rightarrow> JUndefined)"
  by (simp add: DevConfigService_get_def get_property_not_own)

lemma ProdConfigService_get_other:
  "key \<noteq> ''host'' \<Longrightarrow> key \<noteq> ''port'' \<Longrightarrow>
   ProdConfigService_get key = (case Object_prototype key of Some v \<Rightarrow> v | None \<Rightarrow> JUndefined)"
  by (simp add: ProdConfigService_get_def get_property_not_own)

text \<open>
  C4. The two configuration services differ only in the two string literals: on
  \<^verbatim>\<open>host\<close> the development service answers \<^verbatim>\<open>localhost\<close> and the production service
  \<^verbatim>\<open>prod.example.com\<close>, on \<^verbatim>\<open>port\<close> they answer \<^verbatim>\<open>3000\<close> and \<^verbatim>\<open>80\<close>, and on every
  other key the two answer the same.
\<close>

theorem config_services_differ_only_in_host_and_port:
  "DevConfigService_get ''host'' = JString ''localhost'' \<and>
   DevConfigService_get ''port'' = JString ''3000'' \<and>
   ProdConfigService_get ''host'' = JString ''prod.example.com'' \<and>
   ProdConfigService_get ''port'' = JString ''80'' \<and>
   (key \<notin> {''host'', ''port''} \<longrightarrow>
      ConfigService_get new_DevConfigService key = ConfigService_get new_ProdConfigService key)"
  by (simp add: DevConfigService_get_def ProdConfigService_get_def get_property_def
      new_DevConfigService_def new_ProdConfigService_def)

theorem config_services_differ_only_in_host_and_port_witness:
  "''apiEndpoint'' \<notin> {''host'', ''port''} \<and>
   ConfigService_get new_DevConfigService ''apiEndpoint'' =
     ConfigService_get new_ProdConfigService ''apiEndpoint'' \<and>
   DevConfigService_get ''host'' \<noteq> ProdConfigService_get ''host''"
  using config_services_differ_only_in_host_and_port [of "''apiEndpoint''"] by simp

section \<open>Properties of the controller\<close>

lemma getHello_response:
  "fst (AppController_getHello this out) =
     AppService_getHello (appService this) @ '' - Config Host: '' @
     to_string (ConfigService_get (configService this) ''host'')"
  by (simp add: AppController_getHello_def Let_def)

lemma getHello_this: "fst (snd (AppController_getHello this out)) = this"
  by (simp add: AppController_getHello_def Let_def)

lemma getHello_console:
  "snd (snd (AppController_getHello this out)) =
     LoggerService_log (logger this) getHello_message out"
  by (simp add: AppController_getHello_def Let_def)

text \<open>
  C1. With a configuration service whose \<^verbatim>\<open>get('host')\<close> is \<^verbatim>\<open>'localhost'\<close> and a
  greeting service answering \<^verbatim>\<open>'Hello World!'\<close>, the controller returns exactly
  \<^verbatim>\<open>'Hello World! - Config Host: localhost'\<close>, whatever the logger and the console.
\<close>

theorem getHello_test_response:
  assumes "ConfigService_get (configService this) ''host'' = JString ''localhost''"
    and "AppService_getHello (appService this) = ''Hello World!''"
  shows "fst (AppController_getHello this out) = ''Hello World! - Config Host: localhost''"
  using assms by (simp add: getHello_response)

theorem getHello_test_response_witness:
  "ConfigService_get (configService test_AppController) ''host'' = JString ''localhost'' \<and>
   ConfigService_get (configService test_AppController) ''port'' = JUndefined \<and>
   AppService_getHello (appService test_AppController) = ''Hello World!'' \<and>
   fst (AppController_getHello test_AppController []) = ''Hello World! - Config Host: localhost''"
  using getHello_test_response [of test_AppController "[]"]
  by (simp add: test_AppController_def test_ConfigService_def)

text \<open>
  C2. For every greeting service and configuration service, the response is the greeting,
  then \<^verbatim>\<open>' - Config Host: '\<close>, then the result of \<^verbatim>\<open>get('host')\<close> as the template literal
  prints it (the string itself when it is a string); two configuration services that
  agree on \<^verbatim>\<open>host\<close> give the same response.
\<close>

theorem getHello_concatenates_greeting_and_host:
  "fst (AppController_getHello \<lparr>appService = a, configService = c, logger = l\<rparr> out) =
     AppService_getHello a @ '' - Config Host: '' @ to_string (ConfigService_get c ''host'') \<and>
   (ConfigService_get c ''host'' = JString h \<longrightarrow>
     fst (AppController_getHello \<lparr>appService = a, configService = c, logger = l\<rparr> out) =
       AppService_getHello a @ '' - Config Host: '' @ h) \<and>
   (ConfigService_get c ''host'' = ConfigService_get c' ''host'' \<longrightarrow>
     fst (AppController_getHello \<lparr>appService = a, configService = c, logger = l\<rparr> out) =
     fst (AppController_getHello \<lparr>appService = a, configService = c', logger = l\<rparr> out))"
  by (simp add: getHello_response)

theorem getHello_concatenates_greeting_and_host_witness:
  "ConfigService_get new_ProdConfigService ''host'' = JString ''prod.example.com'' \<and>
   fst (AppController_getHello
          \<lparr>appService = \<lparr>AppService_getHello = ''Hi''\<rparr>,
           configService = new_ProdConfigService, logger = new_LoggerService\<rparr> []) =
     ''Hi - Config Host: prod.example.com'' \<and>
   ConfigService_get new_DevConfigService ''host'' = ConfigService_get test_ConfigService ''host'' \<and>
   fst (AppController_getHello
          \<lparr>appService = \<lparr>AppService_getHello = ''Hi''\<rparr>,
           configService = new_DevConfigService, logger = new_LoggerService\<rparr> []) =
   fst (AppController_getHello
          \<lparr>appService = \<lparr>AppService_getHello = ''Hi''\<rparr>,
           configService = test_ConfigService, logger = new_LoggerService\<rparr> [])"
  using getHello_concatenates_greeting_and_host
    [of "\<lparr>AppService_getHello = ''Hi''\<rparr>" new_ProdConfigService new_LoggerService "[]"
        "''prod.example.com''" new_ProdConfigService]
    getHello_concatenates_greeting_and_host
    [of "\<lparr>AppService_getHello = ''Hi''\<rparr>" new_DevConfigService new_LoggerService "[]"
        "''localhost''" test_ConfigService]
  by (simp add: new_ProdConfigService_def new_DevConfigService_def test_ConfigService_def
      ProdConfigService_get_def DevConfigService_get_def get_property_def getHello_response)

text \<open>
  C8. A key other than \<^verbatim>\<open>host\<close> and \<^verbatim>\<open>port\<close> that does not name a member inherited
  from \<^verbatim>\<open>Object.prototype\<close> yields \<^verbatim>\<open>undefined\<close> in both services, and a
  configuration service whose \<^verbatim>\<open>host\<close> lookup yields \<^verbatim>\<open>undefined\<close> puts the text
  \<^verbatim>\<open>undefined\<close> into the response. For an inherited name such as \<^verbatim>\<open>toString\<close> the
  lookup yields the inherited function, not \<^verbatim>\<open>undefined\<close>.
\<close>

theorem inherited_key_is_not_undefined:
  "''toString'' \<notin> {''host'', ''port''} \<and>
   DevConfigService_get ''toString'' = JNativeFunction ''toString'' \<and>
   ProdConfigService_get ''toString'' = JNativeFunction ''toString'' \<and>
   JNativeFunction ''toString'' \<noteq> JUndefined"
  by (simp add: DevConfigService_get_def ProdConfigService_get_def get_property_def
      Object_prototype_def Object_prototype_methods_def)

theorem missing_key_is_undefined:
  "(key \<notin> set ([''host'', ''port'', ''constructor'', ''__proto__''] @ Object_prototype_methods) \<longrightarrow>
      DevConfigService_get key = JUndefined \<and> ProdConfigService_get key = JUndefined) \<and>
   (ConfigService_get c ''host'' = JUndefined \<longrightarrow>
      fst (AppController_getHello \<lparr>appService = a, configService = c, logger = l\<rparr> out) =
        AppService_getHello a @ '' - Config Host: undefined'')"
proof (intro conjI impI)
  assume key: "key \<notin> set ([''host'', ''port'', ''constructor'', ''__proto__''] @ Object_prototype_methods)"
  then have "Object_prototype key = None"
    by (simp add: Object_prototype_def)
  moreover from key have "key \<noteq> ''host''" and "key \<noteq> ''port''"
    by auto
  ultimately show "DevConfigService_get key = JUndefined"
    and "ProdConfigService_get key = JUndefined"
    by (simp_all add: DevConfigService_get_other ProdConfigService_get_other)
next
  assume "ConfigService_get c ''host'' = JUndefined"
  then show "fst (AppController_getHello \<lparr>appService = a, configService = c, logger = l\<rparr> out) =
      AppService_getHello a @ '' - Config Host: undefined''"
    by (simp add: getHello_response)
qed

theorem missing_key_is_undefined_witness:
  "''apiEndpoint'' \<notin> set ([''host'', ''port'', ''constructor'', ''__proto__''] @ Object_prototype_methods) \<and>
   DevConfigService_get ''apiEndpoint'' = JUndefined \<and>
   ProdConfigService_get ''apiEndpoint'' = JUndefined \<and>
   ConfigService_get \<lparr>ConfigService_get = (\<lambda>key. JUndefined)\<rparr> ''host'' = JUndefined \<and>
   fst (AppController_getHello
          \<lparr>appService = \<lparr>AppService_getHello = ''Hello World!''\<rparr>,
           configService = \<lparr>ConfigService_get = (\<lambda>key. JUndefined)\<rparr>,
           logger = test_logger\<rparr> []) = ''Hello World! - Config Host: undefined''"
  using missing_key_is_undefined
    [of "''apiEndpoint''" "\<lparr>ConfigService_get = (\<lambda>key. JUndefined)\<rparr>"
        "\<lparr>AppService_getHello = ''Hello World!''\<rparr>" test_logger "[]"]
  by (simp add: Object_prototype_methods_def)


text \<open>On the services of the first model the two models of \<^verbatim>\<open>getHello\<close> agree.\<close>

lemma getHello_stateful_of_pure:
  "AppController_getHello_stateful (injected_objects this) (world_of st out) =
     (Return (fst (AppController_getHello this out)),
      world_of st (snd (snd (AppController_getHello this out))))"
  by (simp add: AppController_getHello_stateful_def injected_objects_def world_of_def
      app_service_object_def config_service_object_def logger_service_object_def
      AppController_getHello_def Let_def)




section \<open>Properties of the factory\<close>

lemma OptionsProvider_get_literal:
  "OptionsProvider_get new_OptionsProvider out = (options_literal, out)"
  by (simp add: new_OptionsProvider_def options_literal_def)

lemma connect_returns_true: "fst (DatabaseConnection_connect connection out) = True"
  by (simp add: DatabaseConnection_connect_def)

lemma connect_console:
  "snd (DatabaseConnection_connect connection out) =
     out @ [[LogString connect_message, LogObject (DatabaseConnection_options connection)]]"
  by (simp add: DatabaseConnection_connect_def)

lemma useFactory_connection:
  "fst (connectionProvider_useFactory op out) =
     \<lparr>DatabaseConnection_options = fst (OptionsProvider_get op out)\<rparr>"
  by (simp add: connectionProvider_useFactory_def DatabaseConnection_connect_def
      split: prod.splits)

lemma useFactory_console:
  "snd (connectionProvider_useFactory op out) =
     snd (OptionsProvider_get op out) @
       [[LogString connect_message, LogObject (fst (OptionsProvider_get op out))]]"
  by (simp add: connectionProvider_useFactory_def DatabaseConnection_connect_def
      split: prod.splits)

section \<open>Properties of the started application\<close>

text \<open>Starting the application succeeds, in every environment, with the container
  written out above.\<close>

lemma bootstrap_AppModule: "bootstrap (AppModule env) = Inr (started env)"
  by (simp add: bootstrap_def fuel_for_def AppModule_def started_def class_provider_def
      connectionProvider_def configServiceProvider_def appConfigProvider_def
      loggerAliasProvider_def empty_container_def find_provider_def allocate_def bind_token_def
      deref_def Let_def connectionProvider_useFactory_def new_OptionsProvider_def
      DatabaseConnection_connect_def options_literal_def)

text \<open>A token that is bound is not instantiated again.\<close>

lemma resolve_bound:
  "address_of s t = Some a \<Longrightarrow> resolve (Suc n) ps t s = Inr (a, s)"
  by (simp add: address_of_def)

text \<open>An alias of a bound token allocates nothing: it binds the alias to the address of
  the existing instance.\<close>

lemma resolve_alias_of_bound:
  assumes "address_of s t = None"
    and "find_provider ps t = Some p" and "use p = UseExisting t'"
    and "address_of s t' = Some a"
  shows "resolve (Suc (Suc n)) ps t s = Inr (a, bind_token t a s)"
  using assms by (simp add: address_of_def)

lemma started_address_of:
  "address_of (started env) (StringToken ''DATABASE_CONNECTION'') = Some 2"
  "address_of (started env) (ClassToken ConfigService) = Some 3"
  "address_of (started env) (StringToken ''APP_CONFIG'') = Some 4"
  "address_of (started env) (ClassToken LoggerService) = Some 5"
  "address_of (started env) (StringToken ''ALIAS_LOGGER'') = Some 5"
  by (simp_all add: address_of_def started_def)

lemma started_deref:
  "deref (started env) 2 =
     Some (DatabaseConnectionObject \<lparr>DatabaseConnection_options = options_literal\<rparr>)"
  "deref (started env) 3 =
     Some (ClassInstance (if env ''NODE_ENV'' = Some ''production''
                          then ProdConfigService else DevConfigService) [])"
  "deref (started env) 4 = Some (ValueObject AppConfig)"
  "deref (started env) 5 = Some (ClassInstance LoggerService [])"
  "deref (started env) 6 = Some (ClassInstance AppController [0, 3, 5])"
  by (simp_all add: deref_def started_def)

text \<open>
  C3. The provider of \<^verbatim>\<open>ConfigService\<close> uses the class \<^verbatim>\<open>ProdConfigService\<close> exactly
  when \<^verbatim>\<open>NODE_ENV\<close> is \<^verbatim>\<open>production\<close>, and \<^verbatim>\<open>DevConfigService\<close> for every other value
  and when the variable is absent; the started application holds an instance of the
  class so chosen under the token \<^verbatim>\<open>ConfigService\<close>.
\<close>

theorem config_service_is_selected_by_NODE_ENV:
  "provide (configServiceProvider env) = ClassToken ConfigService \<and>
   (use (configServiceProvider env) = UseClass ProdConfigService
      \<longleftrightarrow> env ''NODE_ENV'' = Some ''production'') \<and>
   (use (configServiceProvider env) = UseClass DevConfigService
      \<longleftrightarrow> env ''NODE_ENV'' \<noteq> Some ''production'') \<and>
   (\<exists>s. bootstrap (AppModule env) = Inr s \<and>
      lookup s (ClassToken ConfigService) =
        Some (ClassInstance (if env ''NODE_ENV'' = Some ''production''
                             then ProdConfigService else DevConfigService) []))"
proof (cases "env ''NODE_ENV'' = Some ''production''")
  case True
  then have "use (configServiceProvider env) = UseClass ProdConfigService"
    by (simp add: configServiceProvider_def)
  moreover have "lookup (started env) (ClassToken ConfigService) =
      Some (ClassInstance ProdConfigService [])"
    using True by (simp add: lookup_def started_address_of started_deref)
  ultimately show ?thesis
    using True by (simp add: configServiceProvider_def bootstrap_AppModule)
next
  case False
  then have "use (configServiceProvider env) = UseClass DevConfigService"
    by (simp add: configServiceProvider_def)
  moreover have "lookup (started env) (ClassToken ConfigService) =
      Some (ClassInstance DevConfigService [])"
    using False by (simp add: lookup_def started_address_of started_deref)
  ultimately show ?thesis
    using False by (simp add: configServiceProvider_def bootstrap_AppModule)
qed

theorem config_service_is_selected_by_NODE_ENV_witness:
  "use (configServiceProvider [''NODE_ENV'' \<mapsto> ''production'']) = UseClass ProdConfigService \<and>
   use (configServiceProvider [''NODE_ENV'' \<mapsto> ''development'']) = UseClass DevConfigService \<and>
   use (configServiceProvider Map.empty) = UseClass DevConfigService \<and>
   (\<exists>s. bootstrap (AppModule Map.empty) = Inr s \<and>
      lookup s (ClassToken ConfigService) = Some (ClassInstance DevConfigService []))"
  using config_service_is_selected_by_NODE_ENV [of "[''NODE_ENV'' \<mapsto> ''production'']"]
    config_service_is_selected_by_NODE_ENV [of "[''NODE_ENV'' \<mapsto> ''development'']"]
    config_service_is_selected_by_NODE_ENV [of Map.empty]
  by simp

text \<open>
  C5. \<^verbatim>\<open>AppConfig\<close> has the fields \<^verbatim>\<open>port\<close>, \<^verbatim>\<open>host\<close> and \<^verbatim>\<open>apiEndpoint\<close>; \<^verbatim>\<open>host\<close> is the
  string \<^verbatim>\<open>localhost\<close>, \<^verbatim>\<open>apiEndpoint\<close> the string \<^verbatim>\<open>/api\<close>, and \<^verbatim>\<open>port\<close> is the number
  3000, not a string. The token \<^verbatim>\<open>APP_CONFIG\<close> is bound to this object as it is.
\<close>

theorem AppConfig_port_is_a_number:
  "map_of AppConfig ''port'' = Some (LNumber 3000) \<and> typeof (LNumber 3000) \<noteq> ''string''"
  by (simp add: AppConfig_def)

theorem APP_CONFIG_is_the_AppConfig_object:
  "map fst AppConfig = [''port'', ''host'', ''apiEndpoint''] \<and>
   map_of AppConfig ''host'' = Some (LString ''localhost'') \<and>
   map_of AppConfig ''apiEndpoint'' = Some (LString ''/api'') \<and>
   map_of AppConfig ''port'' = Some (LNumber 3000) \<and>
   map (typeof \<circ> snd) AppConfig = [''number'', ''string'', ''string''] \<and>
   appConfigProvider = \<lparr>provide = StringToken ''APP_CONFIG'', use = UseValue AppConfig\<rparr> \<and>
   (\<exists>s. bootstrap (AppModule env) = Inr s \<and>
      lookup s (StringToken ''APP_CONFIG'') = Some (ValueObject AppConfig))"
proof -
  have "lookup (started env) (StringToken ''APP_CONFIG'') = Some (ValueObject AppConfig)"
    by (simp add: lookup_def started_address_of started_deref)
  then have "\<exists>s. bootstrap (AppModule env) = Inr s \<and>
      lookup s (StringToken ''APP_CONFIG'') = Some (ValueObject AppConfig)"
    by (simp add: bootstrap_AppModule)
  moreover have "map fst AppConfig = [''port'', ''host'', ''apiEndpoint'']"
    and "map (typeof \<circ> snd) AppConfig = [''number'', ''string'', ''string'']"
    and "map_of AppConfig ''host'' = Some (LString ''localhost'')"
    and "map_of AppConfig ''apiEndpoint'' = Some (LString ''/api'')"
    and "map_of AppConfig ''port'' = Some (LNumber 3000)"
    by (simp_all add: AppConfig_def)
  ultimately show ?thesis
    by (simp add: appConfigProvider_def)
qed

theorem APP_CONFIG_is_the_AppConfig_object_witness:
  "\<exists>s. bootstrap (AppModule [''NODE_ENV'' \<mapsto> ''production'']) = Inr s \<and>
      lookup s (StringToken ''APP_CONFIG'') =
        Some (ValueObject [(''port'', LNumber 3000), (''host'', LString ''localhost''),
                           (''apiEndpoint'', LString ''/api'')])"
  using APP_CONFIG_is_the_AppConfig_object [of "[''NODE_ENV'' \<mapsto> ''production'']"]
  by (simp add: AppConfig_def)

text \<open>
  C6. The provider of \<^verbatim>\<open>ALIAS_LOGGER\<close> is an alias, by \<^verbatim>\<open>useExisting\<close>, of
  \<^verbatim>\<open>LoggerService\<close>: in the started application the two tokens are bound to the same
  address, the object there is the instance of \<^verbatim>\<open>LoggerService\<close>, and the logger of the
  \<^verbatim>\<open>AppController\<close> is that address.
\<close>

theorem ALIAS_LOGGER_is_the_LoggerService_instance:
  "loggerAliasProvider =
     \<lparr>provide = StringToken ''ALIAS_LOGGER'', use = UseExisting (ClassToken LoggerService)\<rparr> \<and>
   (\<exists>s a x y.
      bootstrap (AppModule env) = Inr s \<and>
      address_of s (StringToken ''ALIAS_LOGGER'') = Some a \<and>
      address_of s (ClassToken LoggerService) = Some a \<and>
      deref s a = Some (ClassInstance LoggerService []) \<and>
      controller s AppController = Some (ClassInstance AppController [x, y, a]))"
proof -
  have "controller (started env) AppController = Some (ClassInstance AppController [0, 3, 5])"
    by (simp add: controller_def started_def deref_def)
  then have "\<exists>a x y.
      address_of (started env) (StringToken ''ALIAS_LOGGER'') = Some a \<and>
      address_of (started env) (ClassToken LoggerService) = Some a \<and>
      deref (started env) a = Some (ClassInstance LoggerService []) \<and>
      controller (started env) AppController = Some (ClassInstance AppController [x, y, a])"
    by (simp add: started_address_of started_deref)
  then show ?thesis
    by (simp add: loggerAliasProvider_def bootstrap_AppModule)
qed

theorem ALIAS_LOGGER_is_the_LoggerService_instance_witness:
  "\<exists>s a x y.
      bootstrap (AppModule Map.empty) = Inr s \<and>
      address_of s (StringToken ''ALIAS_LOGGER'') = Some a \<and>
      address_of s (ClassToken LoggerService) = Some a \<and>
      deref s a = Some (ClassInstance LoggerService []) \<and>
      controller s AppController = Some (ClassInstance AppController [x, y, a])"
  using ALIAS_LOGGER_is_the_LoggerService_instance [of Map.empty] by simp

text \<open>
  C7. \<^verbatim>\<open>OptionsProvider.get()\<close> returns the literal
  \<^verbatim>\<open>{ host: 'localhost', port: 5432 }\<close> on every call and prints nothing. For every
  options provider the factory gives the connection the result of one call of \<^verbatim>\<open>get\<close>
  unchanged, and the console is the one that one call leaves, with the line of
  \<^verbatim>\<open>connect\<close> added. Starting the application runs the factory once: the token
  \<^verbatim>\<open>DATABASE_CONNECTION\<close> is bound to a connection holding the literal, the console
  holds one line, and resolving the token again returns the same address and changes
  nothing.
\<close>

theorem factory_consumes_the_options_once:
  "OptionsProvider_get new_OptionsProvider out =
     ([(''host'', LString ''localhost''), (''port'', LNumber 5432)], out) \<and>
   DatabaseConnection_options (fst (connectionProvider_useFactory op out)) =
     fst (OptionsProvider_get op out) \<and>
   snd (connectionProvider_useFactory op out) =
     snd (OptionsProvider_get op out) @
       [[LogString connect_message, LogObject (fst (OptionsProvider_get op out))]] \<and>
   (\<exists>s a. bootstrap (AppModule env) = Inr s \<and>
      address_of s (StringToken ''DATABASE_CONNECTION'') = Some a \<and>
      deref s a = Some (DatabaseConnectionObject
        \<lparr>DatabaseConnection_options =
           [(''host'', LString ''localhost''), (''port'', LNumber 5432)]\<rparr>) \<and>
      console_out s =
        [[LogString connect_message,
          LogObject [(''host'', LString ''localhost''), (''port'', LNumber 5432)]]] \<and>
      resolve (fuel_for (AppModule env)) (providers (AppModule env))
        (StringToken ''DATABASE_CONNECTION'') s = Inr (a, s))"
proof -
  let ?s = "started env"
  have again: "resolve (fuel_for (AppModule env)) (providers (AppModule env))
      (StringToken ''DATABASE_CONNECTION'') ?s = Inr (2, ?s)"
    unfolding fuel_for_def by (rule resolve_bound) (rule started_address_of)
  have "console_out ?s = [[LogString connect_message, LogObject options_literal]]"
    by (simp add: started_def)
  with again have "\<exists>a. address_of ?s (StringToken ''DATABASE_CONNECTION'') = Some a \<and>
      deref ?s a = Some (DatabaseConnectionObject
        \<lparr>DatabaseConnection_options = options_literal\<rparr>) \<and>
      console_out ?s = [[LogString connect_message, LogObject options_literal]] \<and>
      resolve (fuel_for (AppModule env)) (providers (AppModule env))
        (StringToken ''DATABASE_CONNECTION'') ?s = Inr (a, ?s)"
    by (simp add: started_address_of started_deref)
  then show ?thesis
    by (simp add: bootstrap_AppModule OptionsProvider_get_literal useFactory_connection
        useFactory_console options_literal_def)
qed

theorem factory_consumes_the_options_once_witness:
  "connectionProvider_useFactory counting_OptionsProvider [] =
     (\<lparr>DatabaseConnection_options = [(''calls'', LNumber 0)]\<rparr>,
      [[LogString ''get''], [LogString connect_message, LogObject [(''calls'', LNumber 0)]]])"
  using factory_consumes_the_options_once [of "[]" counting_OptionsProvider Map.empty]
  by (simp add: counting_OptionsProvider_def prod_eq_iff)

text \<open>
  C9. \<^verbatim>\<open>connect\<close> always returns true. For every options provider, what the factory
  does to the console after its call of \<^verbatim>\<open>get\<close> is what one call of \<^verbatim>\<open>connect\<close> on
  the connection it returns does. In the started application the token
  \<^verbatim>\<open>DATABASE_CONNECTION\<close> is bound to a connection, and the console is the one a call of
  \<^verbatim>\<open>connect\<close> on that connection leaves.
\<close>

theorem factory_returns_a_connected_connection:
  "fst (DatabaseConnection_connect connection out) = True \<and>
   snd (connectionProvider_useFactory op out) =
     snd (DatabaseConnection_connect (fst (connectionProvider_useFactory op out))
            (snd (OptionsProvider_get op out))) \<and>
   (\<exists>s connection. bootstrap (AppModule env) = Inr s \<and>
      lookup s (StringToken ''DATABASE_CONNECTION'') = Some (DatabaseConnectionObject connection) \<and>
      console_out s = snd (DatabaseConnection_connect connection []))"
proof -
  let ?c = "\<lparr>DatabaseConnection_options = options_literal\<rparr>"
  have "lookup (started env) (StringToken ''DATABASE_CONNECTION'') =
      Some (DatabaseConnectionObject ?c)"
    by (simp add: lookup_def started_address_of started_deref)
  moreover have "console_out (started env) = snd (DatabaseConnection_connect ?c [])"
    by (simp add: connect_console started_def)
  ultimately have "\<exists>s connection. bootstrap (AppModule env) = Inr s \<and>
      lookup s (StringToken ''DATABASE_CONNECTION'') = Some (DatabaseConnectionObject connection) \<and>
      console_out s = snd (DatabaseConnection_connect connection [])"
    unfolding bootstrap_AppModule by blast
  then show ?thesis
    by (simp add: connect_returns_true connect_console useFactory_connection useFactory_console)
qed

theorem factory_returns_a_connected_connection_witness:
  "snd (connectionProvider_useFactory new_OptionsProvider []) =
     [[LogString connect_message, LogObject options_literal]] \<and>
   fst (DatabaseConnection_connect \<lparr>DatabaseConnection_options = options_literal\<rparr> [])"
  using factory_returns_a_connected_connection
    [of "\<lparr>DatabaseConnection_options = options_literal\<rparr>" "[]" new_OptionsProvider Map.empty]
  by (simp add: OptionsProvider_get_literal connect_console useFactory_connection)

section \<open>Serving a request\<close>

lemma started_controller:
  "controller (started env) AppController = Some (ClassInstance AppController [0, 3, 5])"
  by (simp add: controller_def started_def deref_def)

lemma started_AppController:
  "AppController_of greeting (started env) (ClassInstance AppController [0, 3, 5]) =
     Some \<lparr>appService = greeting,
           configService = (if env ''NODE_ENV'' = Some ''production''
                            then new_ProdConfigService else new_DevConfigService),
           logger = new_LoggerService\<rparr>"
proof -
  have "deref (started env) 0 = Some (ClassInstance AppService [])"
    by (simp add: deref_def started_def)
  then show ?thesis
    by (simp add: AppController_of_def started_deref)
qed

text \<open>
  The started application answers \<^verbatim>\<open>GET /\<close> with the greeting and the host of the
  chosen configuration service, and the logger behind \<^verbatim>\<open>ALIAS_LOGGER\<close> prints one line.
\<close>

lemma GET_root_started:
  "GET_root greeting (started env) =
     Inr (AppService_getHello greeting @ '' - Config Host: '' @
            (if env ''NODE_ENV'' = Some ''production'' then ''prod.example.com'' else ''localhost''),
          (started env)\<lparr>console_out :=
             console_out (started env) @ [[LogString ''LOG:'', LogString getHello_message]]\<rparr>)"
  by (simp add: GET_root_def started_controller started_AppController
      AppController_getHello_def new_ProdConfigService_def new_DevConfigService_def
      ProdConfigService_get_def DevConfigService_get_def get_property_def new_LoggerService_def)

end
